theory Spec2Isabelle
  imports Complex_Main
begin

section \<open>Python values, exceptions and outcomes\<close>

text \<open>
  The value that \<open>json.loads\<close> / \<open>json.load\<close> hand back. Python's \<open>None\<close> is
  \<open>JNull\<close>; it is also the initial value of \<open>creds_dict\<close> in \<open>get_creds\<close>. Numbers are
  kept as rationals (Python compares \<open>1 == 1.0\<close> as equal; the non-finite floats are not
  represented).
\<close>

datatype json =
    JNull
  | JBool bool
  | JNum rat
  | JStr string
  | JArr "json list"
  | JObj "(string \<times> json) list"

text \<open>Python truth value of such an object, as tested by \<open>if creds:\<close>.\<close>

fun truthy :: "json \<Rightarrow> bool" where
  "truthy JNull = False"
| "truthy (JBool b) = b"
| "truthy (JNum r) = (r \<noteq> 0)"
| "truthy (JStr s) = (s \<noteq> [])"
| "truthy (JArr xs) = (xs \<noteq> [])"
| "truthy (JObj kvs) = (kvs \<noteq> [])"

text \<open>
  The exceptions the handlers of \<open>app.py\<close> tell apart, each carrying the text that
  \<open>str(e)\<close> yields. \<open>OtherException\<close> is any other subclass of \<open>Exception\<close>.
\<close>

datatype exn =
    FileNotFoundError string
  | JSONDecodeError string
  | OtherException string

fun str_exn :: "exn \<Rightarrow> string" where
  "str_exn (FileNotFoundError s) = s"
| "str_exn (JSONDecodeError s) = s"
| "str_exn (OtherException s) = s"

text \<open>
  How a call ends: it returns a value, \<open>st.stop()\<close> halts the script run, or an exception
  that no handler caught leaves the function.
\<close>

datatype 'a outcome = Returned 'a | Stopped | Raised exn

datatype credentials = Credentials (info: json)

text \<open>A client object; \<open>client_id\<close> stands for the identity of the Python instance.\<close>

datatype client = Client (client_id: nat) (client_credentials: credentials)

section \<open>Observable effects\<close>

datatype source = EnvVar | SecretStore

datatype event =
    Contains source          \<comment> \<open>\<open>name in os.environ\<close>, \<open>"GOOGLE_CREDS" in st.secrets\<close>\<close>
  | Fetch source             \<comment> \<open>\<open>os.environ[name]\<close>, \<open>st.secrets["GOOGLE_CREDS"]\<close>\<close>
  | PathExists string        \<comment> \<open>\<open>os.path.exists(p)\<close>\<close>
  | OpenRead string          \<comment> \<open>\<open>open(p, 'r')\<close> and reading it\<close>
  | JsonLoads string         \<comment> \<open>the text handed to the JSON parser\<close>
  | StError string           \<comment> \<open>\<open>st.error(msg)\<close>\<close>
  | StStop                   \<comment> \<open>\<open>st.stop()\<close>\<close>
  | FromServiceAccountInfo json
  | NewClient client         \<comment> \<open>\<open>translate.Client(credentials=...)\<close> returned this instance\<close>
  | Translate string string  \<comment> \<open>\<open>translate_client.translate(text, target_language=...)\<close>\<close>

fun st_errors :: "event list \<Rightarrow> string list" where
  "st_errors [] = []"
| "st_errors (StError m # es) = m # st_errors es"
| "st_errors (_ # es) = st_errors es"

fun fetched :: "event list \<Rightarrow> source list" where
  "fetched [] = []"
| "fetched (Fetch s # es) = s # fetched es"
| "fetched (_ # es) = fetched es"

fun probed :: "event list \<Rightarrow> source list" where
  "probed [] = []"
| "probed (Contains s # es) = s # probed es"
| "probed (_ # es) = probed es"

fun parsed :: "event list \<Rightarrow> string list" where
  "parsed [] = []"
| "parsed (JsonLoads s # es) = s # parsed es"
| "parsed (_ # es) = parsed es"

fun built :: "event list \<Rightarrow> client list" where
  "built [] = []"
| "built (NewClient c # es) = c # built es"
| "built (_ # es) = built es"

fun remote_calls :: "event list \<Rightarrow> (string \<times> string) list" where
  "remote_calls [] = []"
| "remote_calls (Translate t l # es) = (t, l) # remote_calls es"
| "remote_calls (_ # es) = remote_calls es"

section \<open>The environment of the process\<close>

text \<open>
  Everything \<open>app.py\<close> reaches outside itself: the process environment, the Streamlit
  secret store, the file system, the JSON parser, the Google auth and translate libraries
  and the remote service behind them. Each is a parameter; a call may see a different
  environment from the call before it.
  \<open>secrets\<close> is \<open>st.secrets\<close>: either the store, holding strings, or the exception that
  any access to it raises when no \<open>secrets.toml\<close> is found.
  \<open>open_read\<close> is \<open>open(path, 'r')\<close> followed by reading the whole file, as
  \<open>json.load\<close> does; \<open>translate_Client\<close> tells whether the constructor raises;
  \<open>translate\<close> is the \<open>translate\<close> method of a client, answering with the result
  dictionary or raising.
\<close>

record world =
  environ :: "string \<rightharpoonup> string"
  secrets :: "exn + (string \<rightharpoonup> string)"
  os_path_exists :: "string \<Rightarrow> bool"
  open_read :: "string \<Rightarrow> exn + string"
  json_loads :: "string \<Rightarrow> exn + json"
  from_service_account_info :: "json \<Rightarrow> exn + credentials"
  translate_Client :: "credentials \<Rightarrow> exn option"
  translate :: "client \<Rightarrow> string \<Rightarrow> string \<Rightarrow> exn + (string \<rightharpoonup> string)"

section \<open>Credential resolution: \<open>get_creds\<close>\<close>

definition env_var_name :: string where
  "env_var_name = ''GOOGLE_APPLICATION_TRANSLATE_CREDENTIALS_JSON''"

definition file_missing_msg :: "string \<Rightarrow> string" where
  "file_missing_msg env_value =
     ''Error: The file path specified in '' @ env_var_name @ '' does not exist: '' @ env_value"

definition env_decode_msg :: string where
  "env_decode_msg =
     ''Error decoding the JSON string or file in '' @ env_var_name @ ''. Please check the format.''"

definition env_unexpected_msg :: "string \<Rightarrow> string" where
  "env_unexpected_msg e = ''Unexpected error loading credentials from environment variable: '' @ e"

definition secrets_decode_msg :: string where
  "secrets_decode_msg =
     ''Error decoding st.secrets['GOOGLE_CREDS']. Please check your secrets.toml format.''"

definition secrets_unexpected_msg :: "string \<Rightarrow> string" where
  "secrets_unexpected_msg e = ''Unexpected error loading st.secrets credentials: '' @ e"

definition no_creds_msg :: string where
  "no_creds_msg =
     ''No Google credentials found. Please set GOOGLE_APPLICATION_TRANSLATE_CREDENTIALS_JSON environment variable or st.secrets['GOOGLE_CREDS'].''"

text \<open>\<open>str.endswith\<close>.\<close>

definition endswith :: "string \<Rightarrow> string \<Rightarrow> bool" where
  "endswith s suffix \<longleftrightarrow>
     length suffix \<le> length s \<and> drop (length s - length suffix) s = suffix"

text \<open>
  The three \<open>except\<close> clauses of the environment-variable branch, in the order of the
  source: the message each one shows.
\<close>

fun env_message :: "string \<Rightarrow> exn \<Rightarrow> string" where
  "env_message env_value (FileNotFoundError s) = file_missing_msg env_value"
| "env_message env_value (JSONDecodeError s) = env_decode_msg"
| "env_message env_value (OtherException s) = env_unexpected_msg s"

text \<open>Each of them shows its message and calls \<open>st.stop()\<close>.\<close>

definition env_except :: "string \<Rightarrow> exn \<Rightarrow> event list" where
  "env_except env_value e = [StError (env_message env_value e), StStop]"

text \<open>
  The two \<open>except\<close> clauses of the secret-store branch: the message each one shows.
\<close>

fun secrets_message :: "exn \<Rightarrow> string" where
  "secrets_message (JSONDecodeError s) = secrets_decode_msg"
| "secrets_message e = secrets_unexpected_msg (str_exn e)"

text \<open>Each of them shows its message and falls through to \<open>return creds_dict\<close>.\<close>

definition secrets_except :: "exn \<Rightarrow> event list" where
  "secrets_except e = [StError (secrets_message e)]"

text \<open>
  The body of \<open>get_creds\<close>: its outcome and the effects it has, in order. The test
  \<open>"GOOGLE_CREDS" in st.secrets\<close> stands outside every \<open>try\<close>: when the secret store
  cannot be found, its exception leaves the function.
\<close>

definition get_creds_body :: "world \<Rightarrow> json outcome \<times> event list" where
  "get_creds_body w =
     (case environ w env_var_name of
        Some env_value \<Rightarrow>
          (if os_path_exists w env_value \<and> endswith env_value ''.json'' then
             (case open_read w env_value of
                Inl e \<Rightarrow>
                  (Stopped,
                   [Contains EnvVar, Fetch EnvVar, PathExists env_value, OpenRead env_value]
                     @ env_except env_value e)
              | Inr contents \<Rightarrow>
                  (case json_loads w contents of
                     Inl e \<Rightarrow>
                       (Stopped,
                        [Contains EnvVar, Fetch EnvVar, PathExists env_value, OpenRead env_value,
                         JsonLoads contents] @ env_except env_value e)
                   | Inr creds_dict \<Rightarrow>
                       (Returned creds_dict,
                        [Contains EnvVar, Fetch EnvVar, PathExists env_value, OpenRead env_value,
                         JsonLoads contents])))
           else
             (case json_loads w env_value of
                Inl e \<Rightarrow>
                  (Stopped,
                   [Contains EnvVar, Fetch EnvVar, PathExists env_value, JsonLoads env_value]
                     @ env_except env_value e)
              | Inr creds_dict \<Rightarrow>
                  (Returned creds_dict,
                   [Contains EnvVar, Fetch EnvVar, PathExists env_value, JsonLoads env_value])))
      | None \<Rightarrow>
          (case secrets w of
             Inl e \<Rightarrow> (Raised e, [Contains EnvVar, Contains SecretStore])
           | Inr store \<Rightarrow>
               (case store ''GOOGLE_CREDS'' of
                  Some secret \<Rightarrow>
                    (case json_loads w secret of
                       Inl e \<Rightarrow>
                         (Returned JNull,
                          [Contains EnvVar, Contains SecretStore, Fetch SecretStore,
                           JsonLoads secret] @ secrets_except e)
                     | Inr creds_dict \<Rightarrow>
                         (Returned creds_dict,
                          [Contains EnvVar, Contains SecretStore, Fetch SecretStore,
                           JsonLoads secret]))
                | None \<Rightarrow>
                    (Stopped,
                     [Contains EnvVar, Contains SecretStore, StError no_creds_msg, StStop]))))"

section \<open>The process: Streamlit's caches and the effect history\<close>

text \<open>
  \<open>@st.cache_resource\<close> and \<open>@st.cache_data\<close> keep, per decorated function and per
  argument tuple, the value the function returned together with the \<open>st.\<close> element calls
  (here: the \<open>st.error\<close> messages) made while it ran; a later call with the same arguments
  replays those elements and returns the stored value without running the body. A run that
  does not return (halted by \<open>st.stop()\<close> or left by an exception) stores nothing.
  \<open>get_creds\<close> and \<open>get_translator_client\<close> take no arguments, so each has one entry;
  \<open>translate_text\<close> is keyed on \<open>(text, target_language)\<close>. \<open>history\<close> is every effect
  of the process so far, oldest first.
\<close>

record proc =
  creds_cache :: "(json \<times> string list) option"
  client_cache :: "(client option \<times> string list) option"
  text_cache :: "string \<times> string \<rightharpoonup> string \<times> string list"
  history :: "event list"

definition proc0 :: proc where
  "proc0 = \<lparr>creds_cache = None, client_cache = None, text_cache = Map.empty, history = []\<rparr>"

text \<open>The effects a call added to the history.\<close>

definition emitted :: "proc \<Rightarrow> proc \<Rightarrow> event list" where
  "emitted p p' = drop (length (history p)) (history p')"

text \<open>\<open>get_creds\<close> as decorated with \<open>@st.cache_resource\<close>.\<close>

definition get_creds :: "world \<Rightarrow> proc \<Rightarrow> json outcome \<times> proc" where
  "get_creds w p =
     (case creds_cache p of
        Some (creds_dict, msgs) \<Rightarrow>
          (Returned creds_dict, p\<lparr>history := history p @ map StError msgs\<rparr>)
      | None \<Rightarrow>
          (case get_creds_body w of
             (Returned creds_dict, evs) \<Rightarrow>
               (Returned creds_dict,
                p\<lparr>creds_cache := Some (creds_dict, st_errors evs),
                  history := history p @ evs\<rparr>)
           | (r, evs) \<Rightarrow> (r, p\<lparr>history := history p @ evs\<rparr>)))"

section \<open>The client factory: \<open>get_translator_client\<close>\<close>

text \<open>
  The body of \<open>get_translator_client\<close>. An exception of \<open>from_service_account_info\<close> or
  of the \<open>translate.Client\<close> constructor is not handled and leaves the function. A new
  instance gets the next unused identity.
\<close>

definition get_translator_client_body ::
  "world \<Rightarrow> proc \<Rightarrow> client option outcome \<times> proc" where
  "get_translator_client_body w p =
     (case get_creds w p of
        (Returned creds, p1) \<Rightarrow>
          (if truthy creds then
             (case from_service_account_info w creds of
                Inl e \<Rightarrow>
                  (Raised e, p1\<lparr>history := history p1 @ [FromServiceAccountInfo creds]\<rparr>)
              | Inr credentials_object \<Rightarrow>
                  (case translate_Client w credentials_object of
                     Some e \<Rightarrow>
                       (Raised e,
                        p1\<lparr>history := history p1 @ [FromServiceAccountInfo creds]\<rparr>)
                   | None \<Rightarrow>
                       (let c = Client (length (built (history p1))) credentials_object
                        in (Returned (Some c),
                            p1\<lparr>history :=
                                 history p1 @ [FromServiceAccountInfo creds, NewClient c]\<rparr>))))
           else (Returned None, p1))
      | (Stopped, p1) \<Rightarrow> (Stopped, p1)
      | (Raised e, p1) \<Rightarrow> (Raised e, p1))"

text \<open>\<open>get_translator_client\<close> as decorated with \<open>@st.cache_resource\<close>.\<close>

definition get_translator_client :: "world \<Rightarrow> proc \<Rightarrow> client option outcome \<times> proc" where
  "get_translator_client w p =
     (case client_cache p of
        Some (c, msgs) \<Rightarrow> (Returned c, p\<lparr>history := history p @ map StError msgs\<rparr>)
      | None \<Rightarrow>
          (case get_translator_client_body w p of
             (Returned c, p1) \<Rightarrow>
               (Returned c, p1\<lparr>client_cache := Some (c, st_errors (emitted p p1))\<rparr>)
           | (r, p1) \<Rightarrow> (r, p1)))"

section \<open>The facade: \<open>translate_text\<close>\<close>

definition client_unavailable_msg :: string where
  "client_unavailable_msg =
     ''Translation client could not be initialized. Please check your credentials.''"

definition translation_failed_msg :: "string \<Rightarrow> string" where
  "translation_failed_msg e = ''Translation failed. Error: '' @ e"

text \<open>\<open>str(KeyError('translatedText'))\<close>, raised by \<open>result['translatedText']\<close>.\<close>

definition key_error_text :: string where
  "key_error_text = [CHR 0x27] @ ''translatedText'' @ [CHR 0x27]"

text \<open>
  The body of \<open>translate_text\<close>; the module-level \<open>translate_client\<close> it reads is its
  first argument here.
\<close>

definition translate_text_body ::
  "world \<Rightarrow> client option \<Rightarrow> string \<Rightarrow> string \<Rightarrow> string \<times> event list" where
  "translate_text_body w translate_client text target_language =
     (case translate_client of
        None \<Rightarrow> ([], [StError client_unavailable_msg])
      | Some c \<Rightarrow>
          (if text = [] then ([], [])
           else
             (case translate w c text target_language of
                Inl e \<Rightarrow>
                  ([], [Translate text target_language,
                        StError (translation_failed_msg (str_exn e))])
              | Inr result \<Rightarrow>
                  (case result ''translatedText'' of
                     None \<Rightarrow>
                       ([], [Translate text target_language,
                             StError (translation_failed_msg key_error_text)])
                   | Some translated \<Rightarrow> (translated, [Translate text target_language])))))"

text \<open>\<open>translate_text\<close> as decorated with \<open>@st.cache_data\<close>.\<close>

definition translate_text ::
  "world \<Rightarrow> client option \<Rightarrow> string \<Rightarrow> string \<Rightarrow> proc \<Rightarrow> string \<times> proc" where
  "translate_text w translate_client text target_language p =
     (case text_cache p (text, target_language) of
        Some (v, msgs) \<Rightarrow> (v, p\<lparr>history := history p @ map StError msgs\<rparr>)
      | None \<Rightarrow>
          (case translate_text_body w translate_client text target_language of
             (v, evs) \<Rightarrow>
               (v, p\<lparr>text_cache :=
                        (text_cache p)((text, target_language) \<mapsto> (v, st_errors evs)),
                      history := history p @ evs\<rparr>)))"

text \<open>
  The states a process can be in: it starts with empty caches; each script run executes
  the module level, which assigns \<open>translate_client = get_translator_client()\<close>; and once
  that call has returned, \<open>main\<close> may call \<open>translate_text\<close>, which reads that value.
\<close>

inductive reachable :: "proc \<Rightarrow> bool" where
  start: "reachable proc0"
| module_level: "reachable p \<Longrightarrow> reachable (snd (get_translator_client w p))"
| request:
    "reachable p \<Longrightarrow> client_cache p = Some (translate_client, msgs) \<Longrightarrow>
     reachable (snd (translate_text w translate_client text target_language p))"

section \<open>Test doubles for the environment\<close>

definition stub_key :: string where
  \<open>stub_key = ''{"type": "service_account"}''\<close>

text \<open>
  A JSON parser stub that knows one service-account document and \<open>null\<close> and rejects
  every other text with a decode error; the real parser agrees with it on each text the
  examples below hand to it.
\<close>

definition stub_json_loads :: "string \<Rightarrow> exn + json" where
  "stub_json_loads s =
     (if s = stub_key then Inr (JObj [(''type'', JStr ''service_account'')])
      else if s = ''null'' then Inr JNull
      else Inl (JSONDecodeError ''Expecting value: line 1 column 1 (char 0)''))"

text \<open>
  An environment with the variable unset and an empty secret store, an empty file system,
  libraries that accept any payload they are given, and a remote service that is down.
\<close>

definition stub_world :: world where
  "stub_world =
     \<lparr>environ = Map.empty,
      secrets = Inr Map.empty,
      os_path_exists = (\<lambda>p. False),
      open_read = (\<lambda>p. Inl (FileNotFoundError
                    (''[Errno 2] No such file or directory: '' @ [CHR 0x27] @ p @ [CHR 0x27]))),
      json_loads = stub_json_loads,
      from_service_account_info = (\<lambda>j. Inr (Credentials j)),
      translate_Client = (\<lambda>c. None),
      translate = (\<lambda>c text target_language. Inl (OtherException ''503 Service Unavailable''))\<rparr>"

text \<open>The environment variable holds the raw JSON of the key.\<close>

definition world_raw_json :: world where
  "world_raw_json = stub_world\<lparr>environ := [env_var_name \<mapsto> stub_key]\<rparr>"


text \<open>The environment variable holds a path at which there is no file.\<close>

definition world_missing_file :: world where
  "world_missing_file = stub_world\<lparr>environ := [env_var_name \<mapsto> ''/no/such/creds.json'']\<rparr>"

text \<open>The environment variable is unset and the \<open>GOOGLE_CREDS\<close> secret is not JSON.\<close>

definition world_bad_secret :: world where
  "world_bad_secret = stub_world\<lparr>secrets := Inr [''GOOGLE_CREDS'' \<mapsto> ''{not json'']\<rparr>"

text \<open>The environment variable is unset and there is no \<open>secrets.toml\<close>.\<close>

definition world_no_store :: world where
  "world_no_store =
     stub_world\<lparr>secrets := Inl (FileNotFoundError ''No secrets files found.'')\<rparr>"




text \<open>The environment variable is set to text that is not JSON.\<close>

definition world_bad_env :: world where
  "world_bad_env = stub_world\<lparr>environ := [env_var_name \<mapsto> ''{not json'']\<rparr>"

text \<open>As \<open>world_raw_json\<close>, with a remote service that answers every request with "Hola".\<close>

definition world_remote_up :: world where
  "world_remote_up =
     world_raw_json\<lparr>translate :=
       (\<lambda>c text target_language. Inr [''translatedText'' \<mapsto> ''Hola''])\<rparr>"

definition stub_client :: client where
  "stub_client = Client 0 (Credentials (JObj [(''type'', JStr ''service_account'')]))"

text \<open>The process after a first script run in which the secret could not be decoded.\<close>

definition proc_unavailable :: proc where
  "proc_unavailable = snd (get_translator_client world_bad_secret proc0)"

text \<open>The process after a first script run that built the client.\<close>

definition proc_ready :: proc where
  "proc_ready = snd (get_translator_client world_raw_json proc0)"

text \<open>\<open>proc_ready\<close> after a request for ("Hello", "es") that failed remotely.\<close>

definition proc_failed :: proc where
  "proc_failed =
     snd (translate_text world_raw_json (Some stub_client) ''Hello'' ''es'' proc_ready)"

text \<open>\<open>proc_ready\<close> after a request for ("Hello", "es") that succeeded.\<close>

definition proc_hola :: proc where
  "proc_hola =
     snd (translate_text world_remote_up (Some stub_client) ''Hello'' ''es'' proc_ready)"

section \<open>Projections of the effect history\<close>

lemma st_errors_append [simp]: "st_errors (xs @ ys) = st_errors xs @ st_errors ys"
  by (induction xs rule: st_errors.induct) simp_all

lemma fetched_append [simp]: "fetched (xs @ ys) = fetched xs @ fetched ys"
  by (induction xs rule: fetched.induct) simp_all

lemma probed_append [simp]: "probed (xs @ ys) = probed xs @ probed ys"
  by (induction xs rule: probed.induct) simp_all

lemma parsed_append [simp]: "parsed (xs @ ys) = parsed xs @ parsed ys"
  by (induction xs rule: parsed.induct) simp_all

lemma built_append [simp]: "built (xs @ ys) = built xs @ built ys"
  by (induction xs rule: built.induct) simp_all

lemma remote_calls_append [simp]: "remote_calls (xs @ ys) = remote_calls xs @ remote_calls ys"
  by (induction xs rule: remote_calls.induct) simp_all

text \<open>A replay shows messages and does nothing else.\<close>

lemma st_errors_replay [simp]: "st_errors (map StError ms) = ms"
  by (induction ms) simp_all

lemma fetched_replay [simp]: "fetched (map StError ms) = []"
  by (induction ms) simp_all

lemma built_replay [simp]: "built (map StError ms) = []"
  by (induction ms) simp_all

lemma remote_calls_replay [simp]: "remote_calls (map StError ms) = []"
  by (induction ms) simp_all

lemma env_except_cases:
  "env_except v e = [StError (file_missing_msg v), StStop] \<and> (\<exists>s. e = FileNotFoundError s) \<or>
   env_except v e = [StError env_decode_msg, StStop] \<or>
   env_except v e = [StError (env_unexpected_msg (str_exn e)), StStop]"
  by (cases e) (simp_all add: env_except_def)

lemma secrets_except_cases:
  "secrets_except e = [StError secrets_decode_msg] \<or>
   secrets_except e = [StError (secrets_unexpected_msg (str_exn e))]"
  by (cases e) (simp_all add: secrets_except_def)

lemma env_except_st_errors [simp]: "st_errors (env_except v e) = [env_message v e]"
  by (simp add: env_except_def)

lemma secrets_except_st_errors [simp]: "st_errors (secrets_except e) = [secrets_message e]"
  by (simp add: secrets_except_def)

lemma env_except_fetched [simp]: "fetched (env_except v e) = []"
  by (simp add: env_except_def)

lemma env_except_probed [simp]: "probed (env_except v e) = []"
  by (simp add: env_except_def)

lemma env_except_parsed [simp]: "parsed (env_except v e) = []"
  by (simp add: env_except_def)

lemma env_except_built [simp]: "built (env_except v e) = []"
  by (simp add: env_except_def)

lemma env_except_remote_calls [simp]: "remote_calls (env_except v e) = []"
  by (simp add: env_except_def)

lemma secrets_except_fetched [simp]: "fetched (secrets_except e) = []"
  by (simp add: secrets_except_def)

lemma secrets_except_probed [simp]: "probed (secrets_except e) = []"
  by (simp add: secrets_except_def)

lemma secrets_except_parsed [simp]: "parsed (secrets_except e) = []"
  by (simp add: secrets_except_def)

lemma secrets_except_built [simp]: "built (secrets_except e) = []"
  by (simp add: secrets_except_def)

lemma secrets_except_remote_calls [simp]: "remote_calls (secrets_except e) = []"
  by (simp add: secrets_except_def)

lemma emitted_eq: "history p' = history p @ evs \<Longrightarrow> emitted p p' = evs"
  by (simp add: emitted_def)

lemma emitted_append [simp]: "emitted p (p'\<lparr>history := history p @ evs\<rparr>) = evs"
  by (simp add: emitted_def)

lemma emitted_self [simp]: "emitted p p = []"
  by (simp add: emitted_def)

lemma distinct_count_le_1: "distinct xs \<Longrightarrow> count_list xs x \<le> 1"
  by (induction xs) auto

section \<open>What each call changes\<close>

subsection \<open>\<open>get_creds\<close>\<close>

lemma get_creds_body_built [simp]: "built (snd (get_creds_body w)) = []"
  by (simp add: get_creds_body_def split: option.splits sum.splits)

lemma get_creds_body_remote_calls [simp]: "remote_calls (snd (get_creds_body w)) = []"
  by (simp add: get_creds_body_def split: option.splits sum.splits)

lemma get_creds_body_quiet:
  "get_creds_body w = (r, evs) \<Longrightarrow> built evs = [] \<and> remote_calls evs = []"
  using get_creds_body_built[of w] get_creds_body_remote_calls[of w] by simp

lemma get_creds_frame:
  "client_cache (snd (get_creds w p)) = client_cache p"
  "text_cache (snd (get_creds w p)) = text_cache p"
  "built (history (snd (get_creds w p))) = built (history p)"
  "remote_calls (history (snd (get_creds w p))) = remote_calls (history p)"
  by (auto simp: get_creds_def dest: get_creds_body_quiet
      split: option.splits prod.splits outcome.splits)

lemma get_creds_hit:
  "creds_cache p = Some (j, m) \<Longrightarrow>
   get_creds w p = (Returned j, p\<lparr>history := history p @ map StError m\<rparr>)"
  by (simp add: get_creds_def)

text \<open>With nothing cached, the decorated function is its body.\<close>

lemma get_creds_miss:
  "creds_cache p = None \<Longrightarrow>
   fst (get_creds w p) = fst (get_creds_body w) \<and>
   emitted p (snd (get_creds w p)) = snd (get_creds_body w)"
  by (auto simp: get_creds_def emitted_def split: prod.splits outcome.splits)

lemma get_creds_returned:
  "fst (get_creds w p) = Returned j \<Longrightarrow> \<exists>m. creds_cache (snd (get_creds w p)) = Some (j, m)"
  by (auto simp: get_creds_def split: option.splits prod.splits outcome.splits)

lemma get_creds_keeps:
  "creds_cache p = Some x \<Longrightarrow> creds_cache (snd (get_creds w p)) = Some x"
  by (auto simp: get_creds_def split: option.splits prod.splits outcome.splits)

lemma get_creds_ext: "\<exists>evs. history (snd (get_creds w p)) = history p @ evs"
  by (auto simp: get_creds_def split: option.splits prod.splits outcome.splits)

subsection \<open>\<open>get_translator_client\<close>\<close>

lemma body_frame:
  "client_cache (snd (get_translator_client_body w p)) = client_cache p"
  "text_cache (snd (get_translator_client_body w p)) = text_cache p"
  "remote_calls (history (snd (get_translator_client_body w p))) = remote_calls (history p)"
  using get_creds_frame[of w p]
  by (auto simp: get_translator_client_body_def Let_def
      split: prod.splits outcome.splits sum.splits option.splits)

lemma body_built:
  "built (history (snd (get_translator_client_body w p))) =
     built (history p) @
     (case fst (get_translator_client_body w p) of Returned (Some c) \<Rightarrow> [c] | _ \<Rightarrow> [])"
  using get_creds_frame[of w p]
  by (auto simp: get_translator_client_body_def Let_def
      split: prod.splits outcome.splits sum.splits option.splits)

lemma body_creds:
  "fst (get_translator_client_body w p) = Returned (Some c) \<Longrightarrow>
   \<exists>j m. creds_cache (snd (get_translator_client_body w p)) = Some (j, m) \<and> truthy j"
  using get_creds_returned[of w p]
  by (auto simp: get_translator_client_body_def Let_def
      split: prod.splits outcome.splits sum.splits option.splits if_splits)

lemma body_falsy:
  "fst (get_creds w p) = Returned creds \<Longrightarrow> \<not> truthy creds \<Longrightarrow>
   get_translator_client_body w p = (Returned None, snd (get_creds w p))"
  by (auto simp: get_translator_client_body_def split: prod.splits outcome.splits)

lemma body_ext: "\<exists>evs. history (snd (get_translator_client_body w p)) = history p @ evs"
proof -
  obtain evs where "history (snd (get_creds w p)) = history p @ evs"
    using get_creds_ext by blast
  then show ?thesis
    by (auto simp: get_translator_client_body_def Let_def
        split: prod.splits outcome.splits sum.splits option.splits)
qed

lemma client_hit:
  "client_cache p = Some (c, m) \<Longrightarrow>
   get_translator_client w p = (Returned c, p\<lparr>history := history p @ map StError m\<rparr>)"
  by (simp add: get_translator_client_def)

lemma client_keeps:
  "client_cache p = Some x \<Longrightarrow> client_cache (snd (get_translator_client w p)) = Some x"
  by (cases x) (simp add: client_hit)

lemma client_frame:
  "text_cache (snd (get_translator_client w p)) = text_cache p"
  "remote_calls (history (snd (get_translator_client w p))) = remote_calls (history p)"
  using body_frame[of w p]
  by (auto simp: get_translator_client_def split: option.splits prod.splits outcome.splits)

lemma client_miss:
  "client_cache p = None \<Longrightarrow>
   fst (get_translator_client w p) = fst (get_translator_client_body w p) \<and>
   history (snd (get_translator_client w p)) = history (snd (get_translator_client_body w p)) \<and>
   creds_cache (snd (get_translator_client w p)) =
     creds_cache (snd (get_translator_client_body w p)) \<and>
   (case fst (get_translator_client_body w p) of
      Returned c \<Rightarrow> \<exists>m. client_cache (snd (get_translator_client w p)) = Some (c, m)
    | _ \<Rightarrow> client_cache (snd (get_translator_client w p)) = None)"
  using body_frame(1)[of w p]
  by (auto simp: get_translator_client_def split: option.splits prod.splits outcome.splits)

lemma client_returned:
  "fst (get_translator_client w p) = Returned c \<Longrightarrow>
   \<exists>m. client_cache (snd (get_translator_client w p)) = Some (c, m)"
  using body_frame(1)[of w p]
  by (auto simp: get_translator_client_def split: option.splits prod.splits outcome.splits)

lemma client_ext: "\<exists>evs. history (snd (get_translator_client w p)) = history p @ evs"
proof -
  obtain evs where "history (snd (get_translator_client_body w p)) = history p @ evs"
    using body_ext by blast
  then show ?thesis
    by (auto simp: get_translator_client_def split: option.splits prod.splits outcome.splits)
qed

lemma client_history:
  "history (snd (get_translator_client w p)) =
     history p @ emitted p (snd (get_translator_client w p))"
  using client_ext[of w p] by (auto simp: emitted_eq)

subsection \<open>\<open>translate_text\<close>\<close>

lemma unavailable_body:
  "translate_text_body w None t l = ([], [StError client_unavailable_msg])"
  by (simp add: translate_text_body_def)

lemma translate_text_body_calls:
  "remote_calls (snd (translate_text_body w tc t l)) =
     (if tc \<noteq> None \<and> t \<noteq> [] then [(t, l)] else [])"
  by (simp add: translate_text_body_def split: option.splits sum.splits)

lemma translate_text_body_built [simp]: "built (snd (translate_text_body w tc t l)) = []"
  by (simp add: translate_text_body_def split: option.splits sum.splits)

lemma translate_text_frame:
  "client_cache (snd (translate_text w tc t l p)) = client_cache p"
  "creds_cache (snd (translate_text w tc t l p)) = creds_cache p"
  "built (history (snd (translate_text w tc t l p))) = built (history p)"
  by (auto simp: translate_text_def case_prod_beta split: option.splits)

lemma translate_text_hit:
  "text_cache p (t, l) = Some (v, m) \<Longrightarrow>
   translate_text w tc t l p = (v, p\<lparr>history := history p @ map StError m\<rparr>)"
  by (simp add: translate_text_def)

lemma translate_text_miss:
  "text_cache p (t, l) = None \<Longrightarrow>
   translate_text w tc t l p =
     (fst (translate_text_body w tc t l),
      p\<lparr>text_cache := (text_cache p)((t, l) \<mapsto>
            (fst (translate_text_body w tc t l), st_errors (snd (translate_text_body w tc t l)))),
        history := history p @ snd (translate_text_body w tc t l)\<rparr>)"
  by (simp add: translate_text_def case_prod_beta)

section \<open>Invariants of the process\<close>

text \<open>The clients built so far are exactly the cached one, if any.\<close>

lemma inv_built:
  "reachable p \<Longrightarrow>
   built (history p) = (case client_cache p of Some (Some c, m) \<Rightarrow> [c] | _ \<Rightarrow> [])"
proof (induction rule: reachable.induct)
  case start
  show ?case by (simp add: proc0_def)
next
  case (module_level p w)
  show ?case
  proof (cases "client_cache p")
    case None
    with module_level.IH have b: "built (history p) = []" by simp
    from client_miss[OF None, of w] body_built[of w p] b show ?thesis
      by (auto split: outcome.splits option.splits)
  next
    case (Some x)
    obtain c m where x: "x = (c, m)" by (cases x)
    from module_level.IH Some x show ?thesis by (simp add: client_hit)
  qed
next
  case (request p translate_client msgs w t l)
  then show ?case by (simp add: translate_text_frame)
qed

text \<open>A cached client comes from a cached, non-empty payload.\<close>

lemma inv_creds:
  "reachable p \<Longrightarrow> client_cache p = Some (Some c, m) \<Longrightarrow>
   \<exists>j m'. creds_cache p = Some (j, m') \<and> truthy j"
proof (induction arbitrary: c m rule: reachable.induct)
  case start
  then show ?case by (simp add: proc0_def)
next
  case (module_level p w)
  show ?case
  proof (cases "client_cache p")
    case None
    from client_miss[OF None, of w] module_level.prems
    have "fst (get_translator_client_body w p) = Returned (Some c)"
      by (auto split: outcome.splits)
    from body_creds[OF this] client_miss[OF None, of w] show ?thesis by simp
  next
    case (Some x)
    obtain c' m' where x: "x = (c', m')" by (cases x)
    from module_level.prems Some x have "client_cache p = Some (Some c, m)"
      by (simp add: client_hit)
    from module_level.IH[OF this] Some x show ?thesis by (simp add: client_hit)
  qed
next
  case (request p translate_client msgs w t l)
  then show ?case by (simp add: translate_text_frame)
qed

text \<open>No translation is cached before the module level has its client.\<close>

lemma inv_text_empty:
  "reachable p \<Longrightarrow> client_cache p = None \<Longrightarrow> text_cache p = Map.empty"
proof (induction rule: reachable.induct)
  case start
  show ?case by (simp add: proc0_def)
next
  case (module_level p w)
  have "client_cache p = None"
  proof (cases "client_cache p")
    case (Some x)
    from client_keeps[OF this, of w] module_level.prems show ?thesis by simp
  qed simp
  with module_level.IH show ?case by (simp add: client_frame)
next
  case (request p translate_client msgs w t l)
  then show ?case by (simp add: translate_text_frame)
qed

text \<open>Every cached translation is what the body gave, with the process's client, for its key.\<close>

lemma inv_text_entry:
  "reachable p \<Longrightarrow> client_cache p = Some (tc, m) \<Longrightarrow> text_cache p (t, l) = Some (v, ms) \<Longrightarrow>
   \<exists>w. v = fst (translate_text_body w tc t l) \<and>
       ms = st_errors (snd (translate_text_body w tc t l))"
proof (induction arbitrary: tc m t l v ms rule: reachable.induct)
  case start
  then show ?case by (simp add: proc0_def)
next
  case (module_level p w)
  show ?case
  proof (cases "client_cache p")
    case None
    from inv_text_empty[OF module_level.hyps None] module_level.prems(2)
    show ?thesis by (simp add: client_frame)
  next
    case (Some x)
    from client_keeps[OF Some, of w] module_level.prems(1) Some
    have "client_cache p = Some (tc, m)"
      by simp
    moreover from module_level.prems(2) have "text_cache p (t, l) = Some (v, ms)"
      by (simp add: client_frame)
    ultimately show ?thesis by (rule module_level.IH)
  qed
next
  case (request p translate_client msgs w t' l')
  from request.prems(1) request.hyps(2) have tc: "translate_client = tc" "msgs = m"
    by (simp_all add: translate_text_frame)
  show ?case
  proof (cases "text_cache p (t', l')")
    case None
    show ?thesis
    proof (cases "(t, l) = (t', l')")
      case True
      with request.prems(2) None tc show ?thesis
        by (auto simp: translate_text_miss)
    next
      case False
      with request.prems(2) None have "text_cache p (t, l) = Some (v, ms)"
        by (auto simp: translate_text_miss)
      with request.IH request.hyps(2) tc show ?thesis by blast
    qed
  next
    case (Some e)
    obtain v' m' where e: "e = (v', m')" by (cases e)
    from request.prems(2) Some e have "text_cache p (t, l) = Some (v, ms)"
      by (simp add: translate_text_hit)
    with request.IH request.hyps(2) tc show ?thesis by blast
  qed
qed

text \<open>No pair went to the remote service twice, and each pair that went is cached.\<close>

lemma inv_calls:
  "reachable p \<Longrightarrow>
   distinct (remote_calls (history p)) \<and> set (remote_calls (history p)) \<subseteq> dom (text_cache p)"
proof (induction rule: reachable.induct)
  case start
  show ?case by (simp add: proc0_def)
next
  case (module_level p w)
  then show ?case by (simp add: client_frame)
next
  case (request p translate_client msgs w t l)
  show ?case
  proof (cases "text_cache p (t, l)")
    case None
    with request.IH have "(t, l) \<notin> set (remote_calls (history p))" by auto
    with request.IH None show ?thesis
      by (auto simp: translate_text_miss translate_text_body_calls)
  next
    case (Some e)
    obtain v' m' where e: "e = (v', m')" by (cases e)
    from request.IH Some e show ?thesis by (simp add: translate_text_hit)
  qed
qed

text \<open>A call with the client unavailable, cached or not.\<close>

lemma unavailable_call:
  assumes "reachable p" and "client_cache p = Some (None, m)"
  shows "fst (translate_text w None t l p) = [] \<and>
         st_errors (emitted p (snd (translate_text w None t l p))) = [client_unavailable_msg] \<and>
         remote_calls (emitted p (snd (translate_text w None t l p))) = []"
proof (cases "text_cache p (t, l)")
  case None
  then show ?thesis by (simp add: translate_text_miss unavailable_body)
next
  case (Some e)
  obtain v ms where e: "e = (v, ms)" by (cases e)
  from inv_text_entry[OF assms] Some e have "v = [] \<and> ms = [client_unavailable_msg]"
    by (fastforce simp: unavailable_body)
  with Some e show ?thesis by (simp add: translate_text_hit)
qed

section \<open>The example processes\<close>

lemma proc_unavailable_eq:
  "proc_unavailable =
     \<lparr>creds_cache = Some (JNull, [secrets_decode_msg]),
      client_cache = Some (None, [secrets_decode_msg]),
      text_cache = Map.empty,
      history = [Contains EnvVar, Contains SecretStore, Fetch SecretStore,
                 JsonLoads ''{not json'', StError secrets_decode_msg]\<rparr>"
  by (simp add: proc_unavailable_def world_bad_secret_def get_translator_client_def
      get_translator_client_body_def get_creds_def emitted_def proc0_def get_creds_body_def
      stub_world_def stub_json_loads_def stub_key_def env_except_def secrets_except_def)

lemma proc_ready_eq:
  "proc_ready =
     \<lparr>creds_cache = Some (JObj [(''type'', JStr ''service_account'')], []),
      client_cache = Some (Some stub_client, []),
      text_cache = Map.empty,
      history = [Contains EnvVar, Fetch EnvVar, PathExists stub_key, JsonLoads stub_key,
                 FromServiceAccountInfo (JObj [(''type'', JStr ''service_account'')]),
                 NewClient stub_client]\<rparr>"
  by (simp add: proc_ready_def world_raw_json_def get_translator_client_def
      get_translator_client_body_def get_creds_def emitted_def proc0_def get_creds_body_def
      stub_world_def stub_json_loads_def stub_client_def Let_def env_except_def secrets_except_def)

lemma translate_down:
  "translate world_raw_json c t l = Inl (OtherException ''503 Service Unavailable'')"
  by (simp add: world_raw_json_def stub_world_def)

lemma translate_up: "translate world_remote_up c t l = Inr [''translatedText'' \<mapsto> ''Hola'']"
  by (simp add: world_remote_up_def)

lemma proc_hola_eq:
  "proc_hola =
     proc_ready\<lparr>text_cache := [(''Hello'', ''es'') \<mapsto> (''Hola'', [])],
                history := history proc_ready @ [Translate ''Hello'' ''es'']\<rparr>"
  by (simp add: proc_hola_def translate_text_def translate_text_body_def translate_up
      proc_ready_eq)

lemma proc_failed_eq:
  "proc_failed =
     proc_ready\<lparr>text_cache :=
                  [(''Hello'', ''es'') \<mapsto>
                     ([], [translation_failed_msg ''503 Service Unavailable''])],
                history := history proc_ready @
                  [Translate ''Hello'' ''es'',
                   StError (translation_failed_msg ''503 Service Unavailable'')]\<rparr>"
  by (simp add: proc_failed_def translate_text_def translate_text_body_def translate_down
      proc_ready_eq)

lemma reachable_unavailable: "reachable proc_unavailable"
  unfolding proc_unavailable_def by (rule reachable.module_level[OF reachable.start])

lemma reachable_ready: "reachable proc_ready"
  unfolding proc_ready_def by (rule reachable.module_level[OF reachable.start])

lemma reachable_failed: "reachable proc_failed"
  unfolding proc_failed_def
  by (rule reachable.request[OF reachable_ready]) (simp add: proc_ready_eq)

lemma reachable_hola: "reachable proc_hola"
  unfolding proc_hola_def
  by (rule reachable.request[OF reachable_ready]) (simp add: proc_ready_eq)

section \<open>Credential resolution\<close>

lemma credential_messages_distinct:
  "distinct [file_missing_msg v, env_decode_msg, secrets_decode_msg, no_creds_msg]"
  by (simp add: file_missing_msg_def env_decode_msg_def secrets_decode_msg_def no_creds_msg_def
      env_var_name_def)

lemma file_missing_msg_other:
  "file_missing_msg v \<noteq> env_unexpected_msg s"
  "file_missing_msg v \<noteq> secrets_unexpected_msg s"
  by (simp_all add: file_missing_msg_def env_unexpected_msg_def secrets_unexpected_msg_def)

lemma file_missing_msg_inj: "file_missing_msg v = file_missing_msg v' \<Longrightarrow> v = v'"
  by (simp add: file_missing_msg_def)

text \<open>With no source at all, resolution shows its message and halts.\<close>

lemma no_source_halts:
  "environ w env_var_name = None \<Longrightarrow> secrets w = Inr store \<Longrightarrow>
   store ''GOOGLE_CREDS'' = None \<Longrightarrow>
   get_creds_body w =
     (Stopped, [Contains EnvVar, Contains SecretStore, StError no_creds_msg, StStop])"
  by (simp add: get_creds_body_def)

text \<open>
  In the environment-variable branch, every failure shows one message and halts.
\<close>

lemma env_branch_failure_halts:
  assumes "environ w env_var_name = Some v" and "\<And>j. fst (get_creds_body w) \<noteq> Returned j"
  shows "fst (get_creds_body w) = Stopped \<and> StStop \<in> set (snd (get_creds_body w)) \<and>
         length (st_errors (snd (get_creds_body w))) = 1"
proof -
  have halt: "StStop \<in> set (env_except v e) \<and> length (st_errors (env_except v e)) = 1" for e
    by (simp add: env_except_def)
  show ?thesis
  proof (cases "os_path_exists w v \<and> endswith v ''.json''")
    case True
    show ?thesis
    proof (cases "open_read w v")
      case (Inl e)
      with assms(1) True halt[of e] show ?thesis by (simp add: get_creds_body_def)
    next
      case (Inr contents)
      with assms True halt[of "projl (json_loads w contents)"] show ?thesis
        by (cases "json_loads w contents") (auto simp: get_creds_body_def)
    qed
  next
    case False
    with assms halt[of "projl (json_loads w v)"] show ?thesis
      by (cases "json_loads w v") (auto simp: get_creds_body_def)
  qed
qed

text \<open>
  In the secret-store branch nothing halts: a failure shows its message and \<open>None\<close> is
  returned.
\<close>

lemma secret_branch_never_halts:
  assumes "environ w env_var_name = None" and "secrets w = Inr store"
    and "store ''GOOGLE_CREDS'' = Some s"
  shows "fst (get_creds_body w) =
           (case json_loads w s of Inl e \<Rightarrow> Returned JNull | Inr j \<Rightarrow> Returned j) \<and>
         StStop \<notin> set (snd (get_creds_body w))"
proof (cases "json_loads w s")
  case (Inl e)
  with assms secrets_except_cases[of e] show ?thesis by (auto simp: get_creds_body_def)
next
  case (Inr j)
  with assms show ?thesis by (simp add: get_creds_body_def)
qed

text \<open>
  C1 (the secret-store branch): with the environment variable unset and a \<open>GOOGLE_CREDS\<close>
  secret that is not JSON, \<open>get_creds\<close> shows the decode message and then returns
  \<open>None\<close>: it does not call \<open>st.stop()\<close>, the run is not halted, and
  \<open>get_translator_client\<close> returns \<open>None\<close> to the module level, which goes on. The same
  text in the environment variable halts the run. No client is built either way.
\<close>

theorem secret_decode_failure_does_not_halt:
  "get_creds_body world_bad_secret =
     (Returned JNull,
      [Contains EnvVar, Contains SecretStore, Fetch SecretStore, JsonLoads ''{not json'',
       StError secrets_decode_msg])
   \<and> fst (get_translator_client world_bad_secret proc0) = Returned None
   \<and> built (history proc_unavailable) = []
   \<and> get_creds_body world_bad_env =
     (Stopped,
      [Contains EnvVar, Fetch EnvVar, PathExists ''{not json'', JsonLoads ''{not json'',
       StError env_decode_msg, StStop])"
  by (simp add: proc_unavailable_eq)
    (simp add: get_translator_client_def get_translator_client_body_def get_creds_def
      emitted_def proc0_def get_creds_body_def world_bad_secret_def world_bad_env_def
      stub_world_def stub_json_loads_def stub_key_def endswith_def env_except_def secrets_except_def)

text \<open>
  The missing-file message is shown only after \<open>os.path.exists\<close> has answered that the
  path exists (the parser itself never raises \<open>FileNotFoundError\<close>).
\<close>

lemma missing_file_message_needs_existing_path:
  assumes "StError (file_missing_msg v') \<in> set (snd (get_creds_body w))"
    and parser: "\<And>t s. json_loads w t \<noteq> Inl (FileNotFoundError s)"
  shows "environ w env_var_name = Some v' \<and> os_path_exists w v' \<and> endswith v' ''.json''"
proof -
  note neq = credential_messages_distinct[of v'] file_missing_msg_other[of v']
  show ?thesis
  proof (cases "environ w env_var_name")
    case None
    show ?thesis
    proof (cases "secrets w")
      case (Inl e)
      with None assms(1) show ?thesis by (simp add: get_creds_body_def)
    next
      case (Inr store)
      show ?thesis
      proof (cases "store ''GOOGLE_CREDS''")
        case none: None
        with None Inr assms(1) neq show ?thesis by (simp add: get_creds_body_def)
      next
        case (Some s)
        with None Inr assms(1) neq secrets_except_cases[of "projl (json_loads w s)"]
        show ?thesis
          by (cases "json_loads w s") (auto simp: get_creds_body_def)
      qed
    qed
  next
    case (Some v)
    show ?thesis
    proof (cases "os_path_exists w v \<and> endswith v ''.json''")
      case True
      have "v = v'"
      proof (cases "open_read w v")
        case (Inl e)
        with Some True assms(1) neq env_except_cases[of v e] show ?thesis
          by (auto simp: get_creds_body_def dest: file_missing_msg_inj)
      next
        case (Inr contents)
        with Some True assms(1) neq env_except_cases[of v "projl (json_loads w contents)"]
        show ?thesis
          by (cases "json_loads w contents")
            (auto simp: get_creds_body_def dest: file_missing_msg_inj)
      qed
      with Some True show ?thesis by simp
    next
      case False
      with Some assms(1) neq parser[of v] env_except_cases[of v "projl (json_loads w v)"]
      have False
        by (cases "json_loads w v") (auto simp: get_creds_body_def)
      then show ?thesis ..
    qed
  qed
qed

text \<open>
  C2 (the missing file): an environment-variable value that names a file which does not
  exist fails the \<open>os.path.exists\<close> test, so the file is never opened; the value itself
  goes to the JSON parser, and the message shown before halting is the JSON-decode
  message, not the missing-file message.
\<close>

theorem missing_file_shows_decode_message:
  "get_creds_body world_missing_file =
     (Stopped,
      [Contains EnvVar, Fetch EnvVar, PathExists ''/no/such/creds.json'',
       JsonLoads ''/no/such/creds.json'', StError env_decode_msg, StStop])
   \<and> env_decode_msg \<noteq> file_missing_msg ''/no/such/creds.json''"
  by (simp add: get_creds_body_def world_missing_file_def stub_world_def stub_json_loads_def
      stub_key_def env_decode_msg_def file_missing_msg_def env_except_def secrets_except_def)

text \<open>
  With the environment variable unset and no secret store to be found, the membership
  test raises, and its exception leaves \<open>get_creds\<close>.
\<close>

lemma missing_store_raises:
  "environ w env_var_name = None \<Longrightarrow> secrets w = Inl e \<Longrightarrow>
   get_creds_body w = (Raised e, [Contains EnvVar, Contains SecretStore])"
  by (simp add: get_creds_body_def)

lemma no_store_run_raises:
  "get_creds_body world_no_store =
     (Raised (FileNotFoundError ''No secrets files found.''),
      [Contains EnvVar, Contains SecretStore])
   \<and> fst (get_translator_client world_no_store proc0) =
       Raised (FileNotFoundError ''No secrets files found.'')
   \<and> client_cache (snd (get_translator_client world_no_store proc0)) = None"
  by (simp add: get_translator_client_def get_translator_client_body_def get_creds_def
      proc0_def get_creds_body_def world_no_store_def stub_world_def)

text \<open>
  C3 as stated fails when neither source is present: both are probed, and no source is
  read.
\<close>

theorem no_source_present_reads_none:
  "fetched (snd (get_creds_body stub_world)) = []
   \<and> probed (snd (get_creds_body stub_world)) = [EnvVar, SecretStore]"
  by (simp add: get_creds_body_def stub_world_def env_except_def secrets_except_def)

text \<open>
  C3, amended: every run of the body of \<open>get_creds\<close> reads at most one source, in fixed
  priority. If the environment variable is set, it alone is read and the secret store is
  neither probed nor read. If it is absent, the secret store is probed as well, and its
  entry \<open>GOOGLE_CREDS\<close> alone is read when the store has it; when the store has no such
  entry, or cannot be found, no source is read.
\<close>

theorem get_creds_source_priority:
  "fetched (snd (get_creds_body w)) =
     (case environ w env_var_name of
        Some env_value \<Rightarrow> [EnvVar]
      | None \<Rightarrow>
          (case secrets w of
             Inl e \<Rightarrow> []
           | Inr store \<Rightarrow>
               (case store ''GOOGLE_CREDS'' of Some secret \<Rightarrow> [SecretStore] | None \<Rightarrow> [])))
   \<and> probed (snd (get_creds_body w)) =
     (case environ w env_var_name of
        Some env_value \<Rightarrow> [EnvVar]
      | None \<Rightarrow> [EnvVar, SecretStore])"
  by (simp add: get_creds_body_def split: option.splits sum.splits)




section \<open>The client factory\<close>

text \<open>
  C4: in every state of the process, when credential resolution returns no payload
  (\<open>None\<close>, or any other value that \<open>if creds:\<close> takes for false),
  \<open>get_translator_client\<close> returns \<open>None\<close> rather than raising, and builds no client;
  and when the module's client is \<open>None\<close>, \<open>translate_text\<close> shows the
  client-unavailable message, returns the empty string and makes no remote call, for
  every text and target language.
\<close>

theorem unavailable_client_degrades:
  assumes "reachable p"
  shows "(fst (get_creds w p) = Returned creds \<longrightarrow> \<not> truthy creds \<longrightarrow>
            fst (get_translator_client w p) = Returned None \<and>
            built (emitted p (snd (get_translator_client w p))) = [])
       \<and> (client_cache p = Some (None, m) \<longrightarrow>
            fst (translate_text w' None t l p) = [] \<and>
            st_errors (emitted p (snd (translate_text w' None t l p))) =
              [client_unavailable_msg] \<and>
            remote_calls (emitted p (snd (translate_text w' None t l p))) = [])"
proof (intro conjI impI)
  assume r: "fst (get_creds w p) = Returned creds" and f: "\<not> truthy creds"
  show "fst (get_translator_client w p) = Returned None"
  proof (cases "client_cache p")
    case None
    with body_falsy[OF r f] show ?thesis by (simp add: client_miss)
  next
    case (Some x)
    obtain c m0 where x: "x = (c, m0)" by (cases x)
    have "c = None"
    proof (cases c)
      case (Some cl)
      with \<open>client_cache p = Some x\<close> x inv_creds[OF assms, of cl m0]
      obtain j m' where "creds_cache p = Some (j, m')" "truthy j" by auto
      with r f show ?thesis by (simp add: get_creds_hit)
    qed simp
    with Some x show ?thesis by (simp add: client_hit)
  qed
  have "built (history (snd (get_translator_client w p))) = built (history p)"
  proof (cases "client_cache p")
    case None
    with body_falsy[OF r f] show ?thesis by (simp add: client_miss get_creds_frame)
  next
    case (Some x)
    obtain c m0 where x: "x = (c, m0)" by (cases x)
    with Some show ?thesis by (simp add: client_hit)
  qed
  with client_history[of w p] show "built (emitted p (snd (get_translator_client w p))) = []"
    by (metis append_self_conv built_append)
next
  assume "client_cache p = Some (None, m)"
  from unavailable_call[OF assms this]
  show "fst (translate_text w' None t l p) = []"
    and "st_errors (emitted p (snd (translate_text w' None t l p))) = [client_unavailable_msg]"
    and "remote_calls (emitted p (snd (translate_text w' None t l p))) = []"
    by simp_all
qed

text \<open>
  A first run with an undecodable secret returns \<open>None\<close> as the client; a request for
  ("Hello", "es") in the process it leaves gets the message and the empty string, though
  the remote service is up.
\<close>

theorem unavailable_client_degrades_witness:
  "fst (get_creds world_bad_secret proc0) = Returned JNull
   \<and> fst (get_translator_client world_bad_secret proc0) = Returned None
   \<and> built (emitted proc0 (snd (get_translator_client world_bad_secret proc0))) = []
   \<and> client_cache proc_unavailable = Some (None, [secrets_decode_msg])
   \<and> fst (translate_text world_remote_up None ''Hello'' ''es'' proc_unavailable) = []
   \<and> st_errors (emitted proc_unavailable
         (snd (translate_text world_remote_up None ''Hello'' ''es'' proc_unavailable))) =
       [client_unavailable_msg]
   \<and> remote_calls (emitted proc_unavailable
         (snd (translate_text world_remote_up None ''Hello'' ''es'' proc_unavailable))) = []"
proof -
  have h1: "fst (get_creds world_bad_secret proc0) = Returned JNull"
    by (simp add: world_bad_secret_def get_creds_def proc0_def get_creds_body_def
        stub_world_def stub_json_loads_def stub_key_def env_except_def secrets_except_def)
  have h2: "\<not> truthy JNull" by simp
  have h3: "client_cache proc_unavailable = Some (None, [secrets_decode_msg])"
    by (simp add: proc_unavailable_eq)
  from unavailable_client_degrades[OF reachable.start, where w = world_bad_secret
      and creds = JNull] h1 h2
    unavailable_client_degrades[OF reachable_unavailable, where m = "[secrets_decode_msg]"
      and w' = world_remote_up and t = "''Hello''" and l = "''es''"] h3
  show ?thesis by simp
qed

text \<open>
  C9: over the whole life of a process at most one client is ever built; and once
  \<open>get_translator_client\<close> has returned, the next call returns the same instance,
  builds nothing and reads no credential source, whatever the environment has become.
\<close>

theorem client_constructed_once:
  assumes "reachable p"
  shows "length (built (history p)) \<le> 1
       \<and> (fst (get_translator_client w1 p) = Returned c \<longrightarrow>
            fst (get_translator_client w2 (snd (get_translator_client w1 p))) = Returned c \<and>
            built (emitted (snd (get_translator_client w1 p))
              (snd (get_translator_client w2 (snd (get_translator_client w1 p))))) = [] \<and>
            fetched (emitted (snd (get_translator_client w1 p))
              (snd (get_translator_client w2 (snd (get_translator_client w1 p))))) = [])"
proof (intro conjI impI)
  from inv_built[OF assms] show "length (built (history p)) \<le> 1"
    by (simp split: option.splits prod.splits)
next
  assume "fst (get_translator_client w1 p) = Returned c"
  from client_returned[OF this] obtain m
    where hit: "client_cache (snd (get_translator_client w1 p)) = Some (c, m)" by blast
  show "fst (get_translator_client w2 (snd (get_translator_client w1 p))) = Returned c"
    and "built (emitted (snd (get_translator_client w1 p))
              (snd (get_translator_client w2 (snd (get_translator_client w1 p))))) = []"
    and "fetched (emitted (snd (get_translator_client w1 p))
              (snd (get_translator_client w2 (snd (get_translator_client w1 p))))) = []"
    by (simp_all add: client_hit[OF hit])
qed

text \<open>
  The first run builds the client from the key in the environment variable; a second
  call, made when no credential source is left, returns that same client.
\<close>

theorem client_constructed_once_witness:
  "fst (get_translator_client world_raw_json proc0) = Returned (Some stub_client)
   \<and> fst (get_translator_client stub_world proc_ready) = Returned (Some stub_client)
   \<and> built (emitted proc_ready (snd (get_translator_client stub_world proc_ready))) = []
   \<and> fetched (emitted proc_ready (snd (get_translator_client stub_world proc_ready))) = []
   \<and> built (history proc_ready) = [stub_client]
   \<and> length (built (history proc_ready)) \<le> 1"
proof -
  have first: "fst (get_translator_client world_raw_json proc0) = Returned (Some stub_client)"
    by (simp add: world_raw_json_def get_translator_client_def
      get_translator_client_body_def get_creds_def emitted_def proc0_def get_creds_body_def
      stub_world_def stub_json_loads_def stub_client_def Let_def env_except_def secrets_except_def)
  have one: "built (history proc_ready) = [stub_client]"
    by (simp add: proc_ready_eq)
  from client_constructed_once[OF reachable.start, where ?w1.0 = world_raw_json
      and c = "Some stub_client" and ?w2.0 = stub_world, folded proc_ready_def]
    client_constructed_once[OF reachable_ready] first one
  show ?thesis by simp
qed

section \<open>The facade\<close>

text \<open>
  C5: for every target language and whatever the client is, the body of
  \<open>translate_text\<close> on the empty text returns the empty string without a remote call;
  and so does the decorated function in every state of the process, cached entry or not.
\<close>

theorem empty_text_makes_no_call:
  assumes "reachable p" and "client_cache p = Some (tc, m)"
  shows "fst (translate_text_body w tc' [] l) = [] \<and>
         remote_calls (snd (translate_text_body w tc' [] l)) = [] \<and>
         fst (translate_text w tc [] l p) = [] \<and>
         remote_calls (emitted p (snd (translate_text w tc [] l p))) = []"
proof -
  have body: "fst (translate_text_body w' c [] l) = []" for w' c
    by (simp add: translate_text_body_def split: option.splits)
  have "fst (translate_text w tc [] l p) = [] \<and>
      remote_calls (emitted p (snd (translate_text w tc [] l p))) = []"
  proof (cases "text_cache p ([], l)")
    case None
    then show ?thesis by (simp add: translate_text_miss translate_text_body_calls body)
  next
    case (Some e)
    obtain v ms where e: "e = (v, ms)" by (cases e)
    from inv_text_entry[OF assms] Some e body have "v = []" by fastforce
    with Some e show ?thesis by (simp add: translate_text_hit)
  qed
  with body show ?thesis by (simp add: translate_text_body_calls)
qed

text \<open>With a client at hand and the remote service up, the empty text still makes no call.\<close>

theorem empty_text_makes_no_call_witness:
  "client_cache proc_ready = Some (Some stub_client, [])
   \<and> fst (translate_text world_remote_up (Some stub_client) [] ''es'' proc_ready) = []
   \<and> remote_calls (emitted proc_ready
         (snd (translate_text world_remote_up (Some stub_client) [] ''es'' proc_ready))) = []"
proof -
  have h: "client_cache proc_ready = Some (Some stub_client, [])"
    by (simp add: proc_ready_eq)
  from empty_text_makes_no_call[OF reachable_ready h, where w = world_remote_up
      and l = "''es''"] h
  show ?thesis by simp
qed

text \<open>
  A call for a pair that is not cached, with a client and a non-empty text: what it
  returns, shows and leaves behind.
\<close>

lemma uncached_call:
  assumes "t \<noteq> []" and "text_cache p (t, l) = None"
  shows "remote_calls (emitted p (snd (translate_text w (Some c) t l p))) = [(t, l)]"
    and "translate w c t l = Inl e \<Longrightarrow>
           fst (translate_text w (Some c) t l p) = [] \<and>
           st_errors (emitted p (snd (translate_text w (Some c) t l p))) =
             [translation_failed_msg (str_exn e)]"
    and "translate w c t l = Inr result \<Longrightarrow> result ''translatedText'' = Some translated \<Longrightarrow>
           fst (translate_text w (Some c) t l p) = translated \<and>
           st_errors (emitted p (snd (translate_text w (Some c) t l p))) = []"
    and "client_cache (snd (translate_text w (Some c) t l p)) = client_cache p"
    and "(t2, l2) \<noteq> (t, l) \<Longrightarrow>
           fst (translate_text w2 tc2 t2 l2 (snd (translate_text w (Some c) t l p))) =
             fst (translate_text w2 tc2 t2 l2 p) \<and>
           emitted (snd (translate_text w (Some c) t l p))
               (snd (translate_text w2 tc2 t2 l2 (snd (translate_text w (Some c) t l p)))) =
             emitted p (snd (translate_text w2 tc2 t2 l2 p))"
proof -
  let ?p' = "snd (translate_text w (Some c) t l p)"
  show "remote_calls (emitted p ?p') = [(t, l)]"
    using assms by (simp add: translate_text_miss translate_text_body_calls)
  show "fst (translate_text w (Some c) t l p) = [] \<and>
      st_errors (emitted p ?p') = [translation_failed_msg (str_exn e)]"
    if "translate w c t l = Inl e"
    using assms that by (simp add: translate_text_miss translate_text_body_def)
  show "fst (translate_text w (Some c) t l p) = translated \<and>
      st_errors (emitted p ?p') = []"
    if "translate w c t l = Inr result" and "result ''translatedText'' = Some translated"
    using assms that by (simp add: translate_text_miss translate_text_body_def)
  show "client_cache ?p' = client_cache p"
    by (simp add: translate_text_frame)
  show "fst (translate_text w2 tc2 t2 l2 ?p') = fst (translate_text w2 tc2 t2 l2 p) \<and>
      emitted ?p' (snd (translate_text w2 tc2 t2 l2 ?p')) =
        emitted p (snd (translate_text w2 tc2 t2 l2 p))"
    if "(t2, l2) \<noteq> (t, l)"
  proof -
    from that assms have same: "text_cache ?p' (t2, l2) = text_cache p (t2, l2)"
      by (auto simp: translate_text_miss)
    show ?thesis
    proof (cases "text_cache p (t2, l2)")
      case None
      with same show ?thesis by (simp add: translate_text_miss)
    next
      case (Some e)
      obtain v ms where "e = (v, ms)" by (cases e)
      with Some same show ?thesis by (simp add: translate_text_hit)
    qed
  qed
qed

text \<open>
  C6 as stated fails for a pair that is cached: ("Hello", "es") has been translated once,
  and the same request, with the client at hand and the remote service up, makes no
  outbound call. So does the request that failed once: its empty result is served again.
\<close>

theorem cached_pair_makes_no_call:
  "reachable proc_hola
   \<and> client_cache proc_hola = Some (Some stub_client, [])
   \<and> fst (translate_text world_remote_up (Some stub_client) ''Hello'' ''es'' proc_hola) = ''Hola''
   \<and> remote_calls (emitted proc_hola
        (snd (translate_text world_remote_up (Some stub_client) ''Hello'' ''es'' proc_hola))) = []
   \<and> reachable proc_failed
   \<and> client_cache proc_failed = Some (Some stub_client, [])
   \<and> fst (translate_text world_remote_up (Some stub_client) ''Hello'' ''es'' proc_failed) = []
   \<and> remote_calls (emitted proc_failed
        (snd (translate_text world_remote_up (Some stub_client) ''Hello'' ''es'' proc_failed))) = []"
proof -
  have hola: "text_cache proc_hola (''Hello'', ''es'') = Some (''Hola'', [])"
    and failed: "text_cache proc_failed (''Hello'', ''es'') =
      Some ([], [translation_failed_msg ''503 Service Unavailable''])"
    by (simp_all add: proc_hola_eq proc_failed_eq)
  have clients: "client_cache proc_hola = Some (Some stub_client, [])"
    "client_cache proc_failed = Some (Some stub_client, [])"
    by (simp_all add: proc_hola_eq proc_failed_eq proc_ready_eq)
  from reachable_hola reachable_failed clients show ?thesis
    by (simp add: translate_text_hit[OF hola] translate_text_hit[OF failed])
qed

text \<open>
  C6, amended: take a non-empty text and a client \<open>c\<close>. The body of \<open>translate_text\<close>
  makes exactly one remote call, for that text and language; if the call raises, the
  body shows one message, built from the exception, and returns the empty string, and
  nothing is retried. The decorated function runs the body when the pair is not cached:
  then it makes that one call, shows that one message and returns the empty string if
  the call raises, returns the \<open>translatedText\<close> of an answer and shows nothing, leaves
  the module's client alone, and a request for any other pair behaves after it exactly
  as it would have before it. When the pair is cached, the decorated function makes no
  remote call: it returns the stored result and shows the stored messages again.
\<close>

theorem nonempty_text_one_call:
  assumes "t \<noteq> []"
  shows "remote_calls (snd (translate_text_body w (Some c) t l)) = [(t, l)]
       \<and> (translate w c t l = Inl e \<longrightarrow>
            translate_text_body w (Some c) t l =
              ([], [Translate t l, StError (translation_failed_msg (str_exn e))]))
       \<and> (text_cache p (t, l) = None \<longrightarrow>
            remote_calls (emitted p (snd (translate_text w (Some c) t l p))) = [(t, l)] \<and>
            (translate w c t l = Inl e \<longrightarrow>
               fst (translate_text w (Some c) t l p) = [] \<and>
               st_errors (emitted p (snd (translate_text w (Some c) t l p))) =
                 [translation_failed_msg (str_exn e)]) \<and>
            (translate w c t l = Inr result \<longrightarrow> result ''translatedText'' = Some translated \<longrightarrow>
               fst (translate_text w (Some c) t l p) = translated \<and>
               st_errors (emitted p (snd (translate_text w (Some c) t l p))) = []) \<and>
            client_cache (snd (translate_text w (Some c) t l p)) = client_cache p \<and>
            ((t2, l2) \<noteq> (t, l) \<longrightarrow>
               fst (translate_text w2 tc2 t2 l2 (snd (translate_text w (Some c) t l p))) =
                 fst (translate_text w2 tc2 t2 l2 p) \<and>
               emitted (snd (translate_text w (Some c) t l p))
                   (snd (translate_text w2 tc2 t2 l2 (snd (translate_text w (Some c) t l p)))) =
                 emitted p (snd (translate_text w2 tc2 t2 l2 p))))
       \<and> (text_cache p (t, l) = Some (v, ms) \<longrightarrow>
            fst (translate_text w (Some c) t l p) = v \<and>
            remote_calls (emitted p (snd (translate_text w (Some c) t l p))) = [] \<and>
            st_errors (emitted p (snd (translate_text w (Some c) t l p))) = ms)"
proof (intro conjI)
  show "remote_calls (snd (translate_text_body w (Some c) t l)) = [(t, l)]"
    using assms by (simp add: translate_text_body_calls)
  show "translate w c t l = Inl e \<longrightarrow>
      translate_text_body w (Some c) t l =
        ([], [Translate t l, StError (translation_failed_msg (str_exn e))])"
    using assms by (simp add: translate_text_body_def)
  show "text_cache p (t, l) = Some (v, ms) \<longrightarrow>
      fst (translate_text w (Some c) t l p) = v \<and>
      remote_calls (emitted p (snd (translate_text w (Some c) t l p))) = [] \<and>
      st_errors (emitted p (snd (translate_text w (Some c) t l p))) = ms"
    by (simp add: translate_text_hit)
  show "text_cache p (t, l) = None \<longrightarrow>
      remote_calls (emitted p (snd (translate_text w (Some c) t l p))) = [(t, l)] \<and>
      (translate w c t l = Inl e \<longrightarrow>
         fst (translate_text w (Some c) t l p) = [] \<and>
         st_errors (emitted p (snd (translate_text w (Some c) t l p))) =
           [translation_failed_msg (str_exn e)]) \<and>
      (translate w c t l = Inr result \<longrightarrow> result ''translatedText'' = Some translated \<longrightarrow>
         fst (translate_text w (Some c) t l p) = translated \<and>
         st_errors (emitted p (snd (translate_text w (Some c) t l p))) = []) \<and>
      client_cache (snd (translate_text w (Some c) t l p)) = client_cache p \<and>
      ((t2, l2) \<noteq> (t, l) \<longrightarrow>
         fst (translate_text w2 tc2 t2 l2 (snd (translate_text w (Some c) t l p))) =
           fst (translate_text w2 tc2 t2 l2 p) \<and>
         emitted (snd (translate_text w (Some c) t l p))
             (snd (translate_text w2 tc2 t2 l2 (snd (translate_text w (Some c) t l p)))) =
           emitted p (snd (translate_text w2 tc2 t2 l2 p)))"
  proof
    assume miss: "text_cache p (t, l) = None"
    note facts = uncached_call[OF assms miss, where w = w and c = c]
    from facts(1) facts(2)[of e] facts(3)[of result translated] facts(4)
      facts(5)[of t2 l2 w2 tc2]
    show "remote_calls (emitted p (snd (translate_text w (Some c) t l p))) = [(t, l)] \<and>
      (translate w c t l = Inl e \<longrightarrow>
         fst (translate_text w (Some c) t l p) = [] \<and>
         st_errors (emitted p (snd (translate_text w (Some c) t l p))) =
           [translation_failed_msg (str_exn e)]) \<and>
      (translate w c t l = Inr result \<longrightarrow> result ''translatedText'' = Some translated \<longrightarrow>
         fst (translate_text w (Some c) t l p) = translated \<and>
         st_errors (emitted p (snd (translate_text w (Some c) t l p))) = []) \<and>
      client_cache (snd (translate_text w (Some c) t l p)) = client_cache p \<and>
      ((t2, l2) \<noteq> (t, l) \<longrightarrow>
         fst (translate_text w2 tc2 t2 l2 (snd (translate_text w (Some c) t l p))) =
           fst (translate_text w2 tc2 t2 l2 p) \<and>
         emitted (snd (translate_text w (Some c) t l p))
             (snd (translate_text w2 tc2 t2 l2 (snd (translate_text w (Some c) t l p)))) =
           emitted p (snd (translate_text w2 tc2 t2 l2 p)))"
      by blast
  qed
qed

text \<open>
  ("Hello", "es") while the remote service is down: one call, one message, the empty
  string. ("Hello", "fr") afterwards, the service being up again: one call, "Hola".
  ("Hello", "es") once it has been translated: no call, "Hola" from the cache.
\<close>

theorem nonempty_text_one_call_witness:
  "text_cache proc_ready (''Hello'', ''es'') = None
   \<and> translate world_raw_json stub_client ''Hello'' ''es'' =
       Inl (OtherException ''503 Service Unavailable'')
   \<and> translate_text_body world_raw_json (Some stub_client) ''Hello'' ''es'' =
       ([], [Translate ''Hello'' ''es'',
             StError (translation_failed_msg ''503 Service Unavailable'')])
   \<and> fst (translate_text world_raw_json (Some stub_client) ''Hello'' ''es'' proc_ready) = []
   \<and> remote_calls (emitted proc_ready proc_failed) = [(''Hello'', ''es'')]
   \<and> st_errors (emitted proc_ready proc_failed) =
       [translation_failed_msg ''503 Service Unavailable'']
   \<and> client_cache proc_failed = client_cache proc_ready
   \<and> fst (translate_text world_remote_up (Some stub_client) ''Hello'' ''fr'' proc_failed) = ''Hola''
   \<and> remote_calls (emitted proc_failed
        (snd (translate_text world_remote_up (Some stub_client) ''Hello'' ''fr'' proc_failed))) =
       [(''Hello'', ''fr'')]
   \<and> text_cache proc_hola (''Hello'', ''es'') = Some (''Hola'', [])
   \<and> fst (translate_text world_raw_json (Some stub_client) ''Hello'' ''es'' proc_hola) = ''Hola''
   \<and> remote_calls (emitted proc_hola
        (snd (translate_text world_raw_json (Some stub_client) ''Hello'' ''es'' proc_hola))) = []
   \<and> st_errors (emitted proc_hola
        (snd (translate_text world_raw_json (Some stub_client) ''Hello'' ''es'' proc_hola))) = []"
proof -
  have ne: "''Hello'' \<noteq> []" by simp
  have miss: "text_cache proc_ready (''Hello'', ''es'') = None"
    and miss': "text_cache proc_ready (''Hello'', ''fr'') = None"
    by (simp_all add: proc_ready_eq)
  have hit: "text_cache proc_hola (''Hello'', ''es'') = Some (''Hola'', [])"
    by (simp add: proc_hola_eq)
  have other: "(''Hello'', ''fr'') \<noteq> (''Hello'', ''es'')" by simp
  have hola: "[''translatedText'' \<mapsto> ''Hola''] ''translatedText'' = Some ''Hola''" by simp
  note failed = nonempty_text_one_call[OF ne, where p = proc_ready and l = "''es''"
      and w = world_raw_json and c = stub_client
      and e = "OtherException ''503 Service Unavailable''" and ?t2.0 = "''Hello''"
      and ?l2.0 = "''fr''" and ?w2.0 = world_remote_up and ?tc2.0 = "Some stub_client",
      folded proc_failed_def]
  note fresh = nonempty_text_one_call[OF ne, where p = proc_ready and l = "''fr''"
      and w = world_remote_up and c = stub_client
      and result = "[''translatedText'' \<mapsto> ''Hola'']" and translated = "''Hola''"]
  note cached = nonempty_text_one_call[OF ne, where p = proc_hola and l = "''es''"
      and w = world_raw_json and c = stub_client and v = "''Hola''" and ms = "[]"]
  from failed fresh cached translate_down[of stub_client "''Hello''" "''es''"]
    translate_up[of stub_client "''Hello''" "''fr''"] miss miss' hit other hola
  show ?thesis by simp
qed

text \<open>
  C7: the cache of \<open>translate_text\<close> is keyed on the exact pair (text, target
  language). A pair with no entry of its own runs the body, whatever other pairs are
  cached; a pair with an entry is served that entry, with no remote call; and a call
  leaves the entries of all other pairs as they were. So over the whole life of a process
  no pair goes to the remote service more than once, and a call for a pair that has been
  asked before returns what the first call returned and makes no remote call, whatever
  the remote service would answer now.
\<close>

theorem translate_text_memoized:
  assumes "reachable p"
  shows "count_list (remote_calls (history p)) (t, l) \<le> 1
       \<and> fst (translate_text w2 tc2 t l (snd (translate_text w1 tc1 t l p))) =
           fst (translate_text w1 tc1 t l p)
       \<and> remote_calls (emitted (snd (translate_text w1 tc1 t l p))
             (snd (translate_text w2 tc2 t l (snd (translate_text w1 tc1 t l p))))) = []
       \<and> (text_cache p (t, l) = None \<longrightarrow>
            fst (translate_text w1 tc1 t l p) = fst (translate_text_body w1 tc1 t l) \<and>
            emitted p (snd (translate_text w1 tc1 t l p)) = snd (translate_text_body w1 tc1 t l))
       \<and> (text_cache p (t, l) = Some (v, ms) \<longrightarrow>
            fst (translate_text w1 tc1 t l p) = v \<and>
            remote_calls (emitted p (snd (translate_text w1 tc1 t l p))) = [])
       \<and> ((t2, l2) \<noteq> (t, l) \<longrightarrow>
            text_cache (snd (translate_text w1 tc1 t l p)) (t2, l2) = text_cache p (t2, l2))"
proof -
  from inv_calls[OF assms] have "distinct (remote_calls (history p))" by simp
  then have once: "count_list (remote_calls (history p)) (t, l) \<le> 1"
    by (rule distinct_count_le_1)
  let ?p1 = "snd (translate_text w1 tc1 t l p)"
  obtain v' ms' where entry: "text_cache ?p1 (t, l) = Some (v', ms')"
    and v': "v' = fst (translate_text w1 tc1 t l p)"
  proof (cases "text_cache p (t, l)")
    case None
    then show ?thesis using that by (simp add: translate_text_miss)
  next
    case (Some e)
    obtain v'' ms'' where "e = (v'', ms'')" by (cases e)
    with Some show ?thesis using that by (simp add: translate_text_hit)
  qed
  from entry v' have again:
    "fst (translate_text w2 tc2 t l ?p1) = fst (translate_text w1 tc1 t l p) \<and>
     remote_calls (emitted ?p1 (snd (translate_text w2 tc2 t l ?p1))) = []"
    by (simp add: translate_text_hit)
  have miss: "fst (translate_text w1 tc1 t l p) = fst (translate_text_body w1 tc1 t l) \<and>
      emitted p ?p1 = snd (translate_text_body w1 tc1 t l)"
    if "text_cache p (t, l) = None"
    using that by (simp add: translate_text_miss)
  have hit: "fst (translate_text w1 tc1 t l p) = v \<and> remote_calls (emitted p ?p1) = []"
    if "text_cache p (t, l) = Some (v, ms)"
    using that by (simp add: translate_text_hit)
  have others: "text_cache ?p1 (t2, l2) = text_cache p (t2, l2)" if "(t2, l2) \<noteq> (t, l)"
  proof (cases "text_cache p (t, l)")
    case None
    with that show ?thesis by (auto simp: translate_text_miss)
  next
    case (Some e)
    obtain v'' ms'' where "e = (v'', ms'')" by (cases e)
    with Some show ?thesis by (simp add: translate_text_hit)
  qed
  from once again miss hit others show ?thesis by blast
qed

text \<open>
  ("Hello", "es") is translated to "Hola" once; asked again while the remote service is
  down, it is "Hola" again and no call is made. ("Hello", "fr"), asked then, has no
  entry of its own: the body runs, the call fails, and the entry of ("Hello", "es")
  stays as it was.
\<close>

theorem translate_text_memoized_witness:
  "fst (translate_text world_remote_up (Some stub_client) ''Hello'' ''es'' proc_ready) = ''Hola''
   \<and> fst (translate_text world_raw_json (Some stub_client) ''Hello'' ''es'' proc_hola) = ''Hola''
   \<and> remote_calls (emitted proc_hola
        (snd (translate_text world_raw_json (Some stub_client) ''Hello'' ''es'' proc_hola))) = []
   \<and> remote_calls (history proc_hola) = [(''Hello'', ''es'')]
   \<and> count_list (remote_calls (history proc_hola)) (''Hello'', ''es'') \<le> 1
   \<and> text_cache proc_hola (''Hello'', ''fr'') = None
   \<and> fst (translate_text world_raw_json (Some stub_client) ''Hello'' ''fr'' proc_hola) = []
   \<and> emitted proc_hola
        (snd (translate_text world_raw_json (Some stub_client) ''Hello'' ''fr'' proc_hola)) =
       [Translate ''Hello'' ''fr'', StError (translation_failed_msg ''503 Service Unavailable'')]
   \<and> text_cache
        (snd (translate_text world_raw_json (Some stub_client) ''Hello'' ''fr'' proc_hola))
        (''Hello'', ''es'') = Some (''Hola'', [])"
proof -
  have first:
    "fst (translate_text world_remote_up (Some stub_client) ''Hello'' ''es'' proc_ready) = ''Hola''"
    by (simp add: translate_text_def translate_text_body_def translate_up proc_ready_eq)
  have calls: "remote_calls (history proc_hola) = [(''Hello'', ''es'')]"
    by (simp add: proc_hola_eq) (simp add: proc_ready_eq)
  have hit: "text_cache proc_hola (''Hello'', ''es'') = Some (''Hola'', [])"
    and miss: "text_cache proc_hola (''Hello'', ''fr'') = None"
    by (simp_all add: proc_hola_eq)
  have other: "(''Hello'', ''es'') \<noteq> (''Hello'', ''fr'')" by simp
  have body: "translate_text_body world_raw_json (Some stub_client) ''Hello'' ''fr'' =
      ([], [Translate ''Hello'' ''fr'',
            StError (translation_failed_msg ''503 Service Unavailable'')])"
    by (simp add: translate_text_body_def translate_down)
  from translate_text_memoized[OF reachable_ready, where t = "''Hello''" and l = "''es''"
      and ?w1.0 = world_remote_up and ?tc1.0 = "Some stub_client"
      and ?w2.0 = world_raw_json and ?tc2.0 = "Some stub_client", folded proc_hola_def]
    translate_text_memoized[OF reachable_hola, where t = "''Hello''" and l = "''es''"
      and ?w1.0 = world_raw_json and ?tc1.0 = "Some stub_client"
      and v = "''Hola''" and ms = "[]"]
    translate_text_memoized[OF reachable_hola, where t = "''Hello''" and l = "''fr''"
      and ?w1.0 = world_raw_json and ?tc1.0 = "Some stub_client"
      and ?t2.0 = "''Hello''" and ?l2.0 = "''es''"]
    first calls hit miss other body
  show ?thesis by simp
qed

text \<open>
  C10: in the body of \<open>translate_text\<close> the test of the client comes first: with no
  client, the empty text gets the client-unavailable message, while with a client it
  gets no message at all; neither makes a remote call. The decorated function does the
  same in every state of the process whose client is \<open>None\<close>.
\<close>

theorem client_check_precedes_empty_text_check:
  "translate_text_body w None [] l = ([], [StError client_unavailable_msg])
   \<and> translate_text_body w (Some c) [] l = ([], [])
   \<and> (reachable p \<longrightarrow> client_cache p = Some (None, m) \<longrightarrow>
        fst (translate_text w None [] l p) = [] \<and>
        st_errors (emitted p (snd (translate_text w None [] l p))) = [client_unavailable_msg] \<and>
        remote_calls (emitted p (snd (translate_text w None [] l p))) = [])"
  using unavailable_call[of p m w "[]" l]
  by (simp add: translate_text_body_def)

text \<open>The empty text in the process whose secret could not be decoded.\<close>

theorem client_check_precedes_empty_text_check_witness:
  "reachable proc_unavailable
   \<and> client_cache proc_unavailable = Some (None, [secrets_decode_msg])
   \<and> fst (translate_text world_remote_up None [] ''es'' proc_unavailable) = []
   \<and> st_errors (emitted proc_unavailable
         (snd (translate_text world_remote_up None [] ''es'' proc_unavailable))) =
       [client_unavailable_msg]
   \<and> remote_calls (emitted proc_unavailable
         (snd (translate_text world_remote_up None [] ''es'' proc_unavailable))) = []"
proof -
  have h: "client_cache proc_unavailable = Some (None, [secrets_decode_msg])"
    by (simp add: proc_unavailable_eq)
  from client_check_precedes_empty_text_check[where w = world_remote_up and l = "''es''"
      and p = proc_unavailable and m = "[secrets_decode_msg]"] reachable_unavailable h
  show ?thesis by simp
qed

end
